theory Spec2Isabelle
  imports Main
begin

section \<open>Values, errors and the types of the mssql library\<close>

text \<open>
  The program is src/index.ts: two decorators (\<open>Table\<close>, \<open>Column\<close>) that store metadata by
  class, the class \<open>_MssqlTable\<close> with its static connection pool, and
  \<open>TableFactory.createForClass\<close>. JavaScript strings are modelled as \<open>string\<close> (a list of
  8-bit characters) and stand for ASCII text: \<open>toLowerCase\<close> changes the letters \<open>A\<close> to
  \<open>Z\<close> only, and every character that is not an ASCII letter, digit or underscore is
  outside \<open>[a-zA-Z0-9_]\<close>. Results of \<open>async\<close> functions are modelled like those of
  synchronous ones: \<open>Inl\<close> is the error thrown, or the error the promise is rejected
  with.
\<close>

datatype jsval = JUndefined | JNull | JBoolean bool | JNumber int | JString string

text \<open>An entity object: its own properties in order. Reading a missing
  property gives \<open>undefined\<close>, as \<open>row[column]\<close> does.\<close>

type_synonym object = "(string \<times> jsval) list"

definition get_prop :: "object \<Rightarrow> string \<Rightarrow> jsval" where
  "get_prop obj k = (case map_of obj k of None \<Rightarrow> JUndefined | Some v \<Rightarrow> v)"

text \<open>\<open>new Error(msg)\<close> of the source, the \<open>TypeError\<close> the JavaScript runtime raises, and
  an error of the database server passed through by the mssql library.\<close>

datatype error = Error string | TypeError string | BackendError string

datatype ISqlType = BigInt | Bit | Int' | NVarChar nat

datatype TypeofReturnValue =
  T_bigint | T_boolean | T_function | T_number | T_object | T_string | T_symbol | T_undefined

fun sqlTypes :: "TypeofReturnValue \<Rightarrow> ISqlType" where
  "sqlTypes T_bigint = BigInt"
| "sqlTypes T_boolean = Bit"
| "sqlTypes T_number = Int'"
| "sqlTypes T_string = NVarChar 128"
| "sqlTypes T_function = NVarChar 128"
| "sqlTypes T_object = NVarChar 128"
| "sqlTypes T_symbol = NVarChar 128"
| "sqlTypes T_undefined = NVarChar 128"

section \<open>Strings: \<open>toLowerCase\<close> and \<open>||\<close>\<close>

definition is_upper :: "char \<Rightarrow> bool" where
  "is_upper c = (65 \<le> (of_char c :: nat) \<and> (of_char c :: nat) \<le> 90)"

definition lower_char :: "char \<Rightarrow> char" where
  "lower_char c = (if is_upper c then char_of ((of_char c :: nat) + 32) else c)"

definition toLowerCase :: "string \<Rightarrow> string" where
  "toLowerCase s = map lower_char s"

text \<open>\<open>a || b\<close> where \<open>a\<close> is a string or \<open>undefined\<close>: both \<open>undefined\<close> and the empty
  string are falsy.\<close>

definition or_else :: "string option \<Rightarrow> string \<Rightarrow> string" where
  "or_else a b = (case a of None \<Rightarrow> b | Some s \<Rightarrow> if s = [] then b else s)"

section \<open>The metadata registry: the decorators \<open>Table\<close> and \<open>Column\<close>\<close>

text \<open>A class (its constructor function): metadata is keyed by the identity of the
  class, \<open>class_name\<close> is \<open>constructor.name\<close>, and \<open>new_instance\<close> is the object that
  \<open>new table()\<close> builds.\<close>

record constructor =
  class_id :: nat
  class_name :: string
  new_instance :: object

record ColumnMetadata =
  column :: string
  columnName :: string
  type :: ISqlType

text \<open>The two metadata keys of \<open>Reflect\<close>: \<open>tableMetadataKey\<close> and \<open>columnMetadataKey\<close>. A
  class without an entry reads as \<open>undefined\<close> (\<open>None\<close>).\<close>

record metadata =
  tableMetadata :: "nat \<rightharpoonup> string"
  columnMetadata :: "nat \<rightharpoonup> ColumnMetadata list"

definition no_metadata :: metadata where
  "no_metadata = \<lparr>tableMetadata = Map.empty, columnMetadata = Map.empty\<rparr>"

text \<open>\<open>Table(tableName)(constructor)\<close>, lines 32-40: the stored value is
  \<open>tableName?.toLowerCase() || constructor.name?.toLowerCase()\<close>.\<close>

definition Table :: "string option \<Rightarrow> constructor \<Rightarrow> metadata \<Rightarrow> metadata" where
  "Table tableName ctor md =
     md\<lparr>tableMetadata := (tableMetadata md)(class_id ctor \<mapsto>
          or_else (map_option toLowerCase tableName) (toLowerCase (class_name ctor)))\<rparr>"

record ColumnOptions =
  opt_name :: "string option"
  opt_type :: "ISqlType option"

text \<open>\<open>Column(options)(target, propertyKey)\<close>, lines 69-93. \<open>designType\<close> is the value of
  \<open>typeof Reflect.getMetadata('design:type', target, propertyKey)?.()\<close>, which the
  TypeScript compiler's emitted metadata decides.\<close>

definition Column ::
  "ColumnOptions option \<Rightarrow> TypeofReturnValue \<Rightarrow> constructor \<Rightarrow> string \<Rightarrow> metadata \<Rightarrow> metadata" where
  "Column options designType ctor propertyKey md =
     (let columnName = or_else (case options of None \<Rightarrow> None | Some opts \<Rightarrow> opt_name opts)
                         (toLowerCase propertyKey);
          ty = (case (case options of None \<Rightarrow> None | Some opts \<Rightarrow> opt_type opts) of
                  Some t \<Rightarrow> t | None \<Rightarrow> sqlTypes designType);
          columns = (case columnMetadata md (class_id ctor) of None \<Rightarrow> [] | Some cs \<Rightarrow> cs)
      in md\<lparr>columnMetadata := (columnMetadata md)(class_id ctor \<mapsto>
              columns @ [\<lparr>column = propertyKey, columnName = columnName, type = ty\<rparr>])\<rparr>)"

section \<open>The mssql library: tables, the pool, requests\<close>

text \<open>
  The classes \<open>Table\<close>, \<open>ConnectionPool\<close> and \<open>Request\<close> belong to the mssql package, which
  src/index.ts imports. They are modelled by what the program does with them:
  \<open>new Table(name)\<close> has no columns and no rows, \<open>columns.add\<close> appends one column,
  \<open>rows.add(...values)\<close> appends the values as one row, \<open>pool.request()\<close> makes a fresh
  request, \<open>request.input\<close> binds a parameter, \<open>request.query\<close> and \<open>request.bulk\<close> send
  a statement or a table to the server and read, never change, what they are given.
\<close>

record lib_Table =
  name :: "string option"
  create :: bool
  columns :: "(string \<times> ISqlType \<times> bool) list"
  rows :: "jsval list list"

definition new_Table :: "string option \<Rightarrow> lib_Table" where
  "new_Table nm = \<lparr>name = nm, create = False, columns = [], rows = []\<rparr>"

definition columns_add :: "lib_Table \<Rightarrow> string \<Rightarrow> ISqlType \<Rightarrow> bool \<Rightarrow> lib_Table" where
  "columns_add t cname ty nullable = t\<lparr>columns := columns t @ [(cname, ty, nullable)]\<rparr>"

definition rows_add :: "lib_Table \<Rightarrow> jsval list \<Rightarrow> lib_Table" where
  "rows_add t vals = t\<lparr>rows := rows t @ [vals]\<rparr>"

type_synonym config = string

datatype ConnectionPool = ConnectionPool config

record Request =
  request_id :: nat
  inputs :: "(string \<times> ISqlType \<times> string option) list"

definition input :: "Request \<Rightarrow> string \<Rightarrow> ISqlType \<Rightarrow> string option \<Rightarrow> Request" where
  "input req k ty v = req\<lparr>inputs := inputs req @ [(k, ty, v)]\<rparr>"

record IBulkResult =
  rowsAffected :: nat

text \<open>What reaches the server: a statement with its bound parameters, or a bulk copy of
  a table as it is at that moment.\<close>

datatype event = Query string "(string \<times> ISqlType \<times> string option) list" | Bulk lib_Table

text \<open>The server's answers are not the program's to decide: they are a parameter.\<close>

record backend =
  query_outcome :: "string \<Rightarrow> error option"
  bulk_outcome :: "lib_Table \<Rightarrow> error + IBulkResult"

text \<open>The state outside the handles: the static \<open>_MssqlTable.pool\<close>, the number of
  requests made on the pool, what was sent to the server, and the calls of
  \<open>console.error\<close>.\<close>

record world =
  pool :: "ConnectionPool option"
  requests :: nat
  sent :: "event list"
  console :: "(string \<times> error) list"

definition pool_request :: "world \<Rightarrow> Request \<times> world" where
  "pool_request w = (\<lparr>request_id = requests w, inputs = []\<rparr>, w\<lparr>requests := Suc (requests w)\<rparr>)"

definition query :: "backend \<Rightarrow> Request \<Rightarrow> string \<Rightarrow> world \<Rightarrow> (error + unit) \<times> world" where
  "query srv req sql w =
     ((case query_outcome srv sql of None \<Rightarrow> Inr () | Some e \<Rightarrow> Inl e),
      w\<lparr>sent := sent w @ [Query sql (inputs req)]\<rparr>)"

definition bulk :: "backend \<Rightarrow> Request \<Rightarrow> lib_Table \<Rightarrow> world \<Rightarrow> (error + IBulkResult) \<times> world" where
  "bulk srv req t w = (bulk_outcome srv t, w\<lparr>sent := sent w @ [Bulk t]\<rparr>)"

section \<open>Characters: the pattern of \<open>useDb\<close> and \<open>querystring.escape\<close>\<close>

definition is_lower :: "char \<Rightarrow> bool" where
  "is_lower c = (97 \<le> (of_char c :: nat) \<and> (of_char c :: nat) \<le> 122)"

definition is_digit :: "char \<Rightarrow> bool" where
  "is_digit c = (48 \<le> (of_char c :: nat) \<and> (of_char c :: nat) \<le> 57)"

text \<open>The character class \<open>[^a-zA-Z0-9_]\<close>, and \<open>test\<close> of a pattern that is one
  character class, not anchored: some character of the string is in the class.\<close>

definition forbiddenChars :: "char \<Rightarrow> bool" where
  "forbiddenChars c = (\<not> (is_lower c \<or> is_upper c \<or> is_digit c \<or> c = CHR ''_''))"

definition regex_test :: "(char \<Rightarrow> bool) \<Rightarrow> string \<Rightarrow> bool" where
  "regex_test cls s = list_ex cls s"

text \<open>\<open>escape\<close> of node:querystring: percent-encoding of every character but letters,
  digits and \<open>- _ . ! ~ * ' ( )\<close>.\<close>

definition unescaped :: "char \<Rightarrow> bool" where
  "unescaped c =
     (is_lower c \<or> is_upper c \<or> is_digit c \<or>
      c \<in> set [CHR ''-'', CHR ''_'', CHR ''.'', CHR ''!'', CHR ''~'', CHR ''*'', CHR 0x27,
                 CHR ''('', CHR '')''])"

definition hex_digit :: "nat \<Rightarrow> char" where
  "hex_digit n = ''0123456789ABCDEF'' ! (n mod 16)"

definition escape_char :: "char \<Rightarrow> string" where
  "escape_char c =
     (if unescaped c then [c]
      else [CHR ''%'', hex_digit ((of_char c :: nat) div 16), hex_digit ((of_char c :: nat) mod 16)])"

definition escape :: "string \<Rightarrow> string" where
  "escape s = concat (map escape_char s)"

section \<open>The class \<open>_MssqlTable\<close>\<close>

datatype symbol = mssqlExtends | MSSQL_MODULE_OPTIONS | other_symbol nat

text \<open>The constructor's argument: a symbol, \<open>undefined\<close>, or an options object whose
  \<open>config\<close> may be missing.\<close>

datatype options = OptSymbol symbol | OptUndefined | OptObject "config option"

fun is_symbol :: "options \<Rightarrow> bool" where
  "is_symbol (OptSymbol _) = True"
| "is_symbol _ = False"

fun options_config :: "options \<Rightarrow> config option" where
  "options_config (OptObject c) = c"
| "options_config _ = None"

text \<open>
  The constructor, lines 117-137. It either throws (\<open>Inl\<close>), or returns having started
  \<open>connect()\<close> on a new pool (\<open>Inr (Some appPool)\<close>), or returns having done nothing
  (\<open>Inr None\<close>). It does not change the state itself: the static pool is assigned
  later, by the \<open>then\<close> handler of the promise.
\<close>

definition new_MssqlTable :: "options \<Rightarrow> world \<Rightarrow> error + ConnectionPool option" where
  "new_MssqlTable opts w =
     (if pool w = None \<and> opts \<noteq> OptSymbol mssqlExtends \<and> \<not> is_symbol opts then
        (case options_config opts of
           None \<Rightarrow> Inl (Error ''MSSQL_MODULE_OPTIONS.config is required'')
         | Some cfg \<Rightarrow> Inr (Some (ConnectionPool cfg)))
      else Inr None)"

text \<open>The promise of \<open>appPool.connect()\<close> settles: \<open>then\<close> stores the pool, \<open>catch\<close> logs
  the error with \<open>console.error\<close>.\<close>

datatype connect_result = Resolved | Rejected error

fun connect_settled :: "ConnectionPool \<Rightarrow> connect_result \<Rightarrow> world \<Rightarrow> world" where
  "connect_settled appPool Resolved w = w\<lparr>pool := Some appPool\<rparr>"
| "connect_settled appPool (Rejected err) w =
     w\<lparr>console := console w @ [(''Error creating connection pool'', err)]\<rparr>"

text \<open>\<open>request()\<close>, lines 151-157.\<close>

definition request :: "world \<Rightarrow> error + (Request \<times> world)" where
  "request w =
     (case pool w of
        None \<Rightarrow> Inl (Error ''Pool not initialized'')
      | Some p \<Rightarrow> Inr (pool_request w))"

text \<open>A table handle: the entity instance with the two inner fields and the
  properties that \<open>createForClass\<close> defines on it.\<close>

record handle =
  entity :: object
  innerColumns :: "string list"
  innerTable :: lib_Table
  properties :: "string list"

text \<open>\<open>db.useDb(name)\<close>, lines 159-171.\<close>

definition useDb :: "backend \<Rightarrow> string \<Rightarrow> world \<Rightarrow> (error + unit) \<times> world" where
  "useDb srv dbname w =
     (if regex_test forbiddenChars dbname then
        (Inl (Error (''Invalid database name '' @ [CHR 0x27] @ dbname @ [CHR 0x27])), w)
      else
        (case request w of
           Inl e \<Rightarrow> (Inl e, w)
         | Inr (req, w') \<Rightarrow> query srv req (''USE '' @ escape dbname) w'))"

text \<open>\<open>table.drop()\<close>, lines 173-183.\<close>

definition drop_sql :: string where
  "drop_sql = ''DECLARE @sql NVARCHAR(MAX); SET @sql = '' @ [CHR 0x27] @ ''DROP TABLE '' @
     [CHR 0x27] @ '' + QUOTENAME(@name); EXEC sp_executesql @sql;''"

definition drop_table :: "backend \<Rightarrow> handle \<Rightarrow> world \<Rightarrow> (error + unit) \<times> world" where
  "drop_table srv h w =
     (case request w of
        Inl e \<Rightarrow> (Inl e, w)
      | Inr (req, w') \<Rightarrow>
          query srv (input req ''name'' (NVarChar 128) (name (innerTable h))) drop_sql w')"

text \<open>
  \<open>insert(rows)\<close>, lines 185-206. The argument is a single row, an array of rows, or a
  falsy value (\<open>undefined\<close>, \<open>null\<close>). The result is \<open>Inl\<close> when the call throws,
  \<open>Inr None\<close> when it returns \<open>undefined\<close>, and \<open>Inr (Some r)\<close> when it returns the object
  with \<open>exec\<close>, which holds the request made by the call.
\<close>

datatype rows_arg = Falsy | Single object | Array "object list"

fun not_rows :: "rows_arg \<Rightarrow> bool" where
  "not_rows Falsy = True"
| "not_rows _ = False"

fun empty_array :: "rows_arg \<Rightarrow> bool" where
  "empty_array (Array rs) = (length rs = 0)"
| "empty_array _ = False"

text \<open>\<open>[rows].flat()\<close>. A falsy argument never reaches it.\<close>

fun flat :: "rows_arg \<Rightarrow> object list" where
  "flat (Single r) = [r]"
| "flat (Array rs) = rs"
| "flat Falsy = []"

datatype MssqlResult = MssqlResult Request

text \<open>The body of the loop: \<open>values = this[innerColumns].map((column) => row[column])\<close>
  and \<open>this[innerTable].rows.add(...values)\<close>.\<close>

definition row_values :: "string list \<Rightarrow> object \<Rightarrow> jsval list" where
  "row_values cols row = map (\<lambda>c. get_prop row c) cols"

definition add_row :: "string list \<Rightarrow> lib_Table \<Rightarrow> object \<Rightarrow> lib_Table" where
  "add_row cols t row = rows_add t (row_values cols row)"

definition insert_rows ::
  "handle \<Rightarrow> rows_arg \<Rightarrow> world \<Rightarrow> (error + MssqlResult option) \<times> handle \<times> world" where
  "insert_rows h rws w =
     (if not_rows rws \<or> empty_array rws \<or> length (innerColumns h) = 0 then (Inr None, h, w)
      else
        (let irows = flat rws;
             h' = h\<lparr>innerTable := foldl (add_row (innerColumns h)) (innerTable h) irows\<rparr>
         in case request w of
              Inl e \<Rightarrow> (Inl e, h', w)
            | Inr (req, w') \<Rightarrow> (Inr (Some (MssqlResult req)), h', w')))"

text \<open>\<open>exec()\<close> of the returned object, lines 202-204: \<open>request.bulk(this[innerTable])\<close> on
  the handle as it is when \<open>exec\<close> runs.\<close>

fun exec ::
  "backend \<Rightarrow> MssqlResult \<Rightarrow> handle \<Rightarrow> world \<Rightarrow> (error + IBulkResult) \<times> handle \<times> world" where
  "exec srv (MssqlResult req) h w =
     (case bulk srv req (innerTable h) w of (res, w') \<Rightarrow> (res, h, w'))"

text \<open>\<open>handle.insert(rows).exec()\<close> as one expression: reading \<open>exec\<close> of \<open>undefined\<close> is
  a \<open>TypeError\<close>.\<close>

definition insert_exec ::
  "backend \<Rightarrow> handle \<Rightarrow> rows_arg \<Rightarrow> world \<Rightarrow> (error + IBulkResult) \<times> handle \<times> world" where
  "insert_exec srv h rws w =
     (case insert_rows h rws w of
        (Inl e, h', w') \<Rightarrow> (Inl e, h', w')
      | (Inr None, h', w') \<Rightarrow>
          (Inl (TypeError (''Cannot read properties of undefined (reading '' @ [CHR 0x27] @
                 ''exec'' @ [CHR 0x27] @ '')'')), h', w')
      | (Inr (Some r), h', w') \<Rightarrow> exec srv r h' w')"

section \<open>\<open>TableFactory.createForClass\<close>\<close>

text \<open>The own properties of \<open>_MssqlTable.prototype\<close>, in the order of the class body,
  and \<open>delete descriptors.constructor\<close>.\<close>

definition prototype_descriptors :: "string list" where
  "prototype_descriptors =
     [''constructor'', ''onApplicationShutdown'', ''preparedStatement'', ''request'', ''db'',
      ''table'', ''insert'']"

definition delete_descriptor :: "string \<Rightarrow> string list \<Rightarrow> string list" where
  "delete_descriptor k ds = filter (\<lambda>d. d \<noteq> k) ds"

text \<open>
  \<open>createForClass(table)\<close>, lines 210-237. \<open>for (const column of columns)\<close> on
  \<open>undefined\<close> throws the \<open>TypeError\<close> of a value that is not iterable.
\<close>

definition createForClass :: "metadata \<Rightarrow> constructor \<Rightarrow> world \<Rightarrow> error + handle" where
  "createForClass md tbl w =
     (case new_MssqlTable (OptSymbol mssqlExtends) w of
        Inl e \<Rightarrow> Inl e
      | Inr _ \<Rightarrow>
          (let iTable = new_instance tbl;
               tableName = tableMetadata md (class_id tbl);
               cols = columnMetadata md (class_id tbl);
               inner_columns = (case cols of None \<Rightarrow> [] | Some cs \<Rightarrow> map column cs);
               inner_table = (new_Table tableName)\<lparr>create := True\<rparr>
           in case cols of
                None \<Rightarrow> Inl (TypeError ''columns is not iterable'')
              | Some cs \<Rightarrow>
                  Inr \<lparr>entity = iTable,
                       innerColumns = inner_columns,
                       innerTable =
                         foldl (\<lambda>t c. columns_add t (columnName c) (type c) True) inner_table cs,
                       properties = delete_descriptor ''constructor'' prototype_descriptors\<rparr>))"

section \<open>Notions used in the statements\<close>

text \<open>Every column list that the registry holds has a column: \<open>Column\<close> only ever
  appends.\<close>

definition columns_registered :: "metadata \<Rightarrow> bool" where
  "columns_registered md = (\<forall>c cs. columnMetadata md c = Some cs \<longrightarrow> cs \<noteq> [])"

text \<open>A non-empty row input: a single row, or a sequence with at least one row.\<close>

fun nonempty_rows :: "rows_arg \<Rightarrow> bool" where
  "nonempty_rows (Single r) = True"
| "nonempty_rows (Array rs) = (rs \<noteq> [])"
| "nonempty_rows Falsy = False"

text \<open>The number of values held in the row buffer of a handle.\<close>

definition buffered_values :: "handle \<Rightarrow> nat" where
  "buffered_values h = length (concat (rows (innerTable h)))"

text \<open>The allow-list of database names: letters, digits and the underscore.\<close>

definition lower_letters :: string where
  "lower_letters = ''abcdefghijklmnopqrstuvwxyz''"

definition upper_letters :: string where
  "upper_letters = ''ABCDEFGHIJKLMNOPQRSTUVWXYZ''"

definition digits :: string where
  "digits = ''0123456789''"

definition allow_list :: string where
  "allow_list = lower_letters @ upper_letters @ digits @ ''_''"

section \<open>A running example\<close>

text \<open>The entity \<open>Order { id: number; total: number; note: string }\<close>, decorated with
  \<open>@Table()\<close> and three \<open>@Column()\<close>; property decorators run before the class
  decorator. \<open>Plain\<close> is a class that no decorator was applied to.\<close>

definition Order :: constructor where
  "Order = \<lparr>class_id = 1, class_name = ''Order'', new_instance = []\<rparr>"

definition Plain :: constructor where
  "Plain = \<lparr>class_id = 2, class_name = ''Plain'', new_instance = []\<rparr>"

definition Order_metadata :: metadata where
  "Order_metadata =
     Table None Order
       (Column None T_string Order ''note''
         (Column None T_number Order ''total''
           (Column None T_number Order ''id'' no_metadata)))"

definition Order_table :: lib_Table where
  "Order_table =
     \<lparr>name = Some ''order'', create = True,
      columns = [(''id'', Int', True), (''total'', Int', True), (''note'', NVarChar 128, True)],
      rows = []\<rparr>"

definition Order_handle :: handle where
  "Order_handle =
     \<lparr>entity = [], innerColumns = [''id'', ''total'', ''note''], innerTable = Order_table,
      properties = [''onApplicationShutdown'', ''preparedStatement'', ''request'', ''db'',
                    ''table'', ''insert'']\<rparr>"

definition order1 :: object where
  "order1 = [(''id'', JNumber 1), (''total'', JNumber 250), (''note'', JString ''first'')]"

definition order2 :: object where
  "order2 = [(''note'', JString ''second''), (''id'', JNumber 2)]"

definition no_pool :: world where
  "no_pool = \<lparr>pool = None, requests = 0, sent = [], console = []\<rparr>"

definition with_pool :: world where
  "with_pool = \<lparr>pool = Some (ConnectionPool ''server=db''), requests = 0, sent = [], console = []\<rparr>"

text \<open>A server that accepts every statement and reports the rows of a bulk copy.\<close>

definition accepting :: backend where
  "accepting =
     \<lparr>query_outcome = (\<lambda>sql. None),
      bulk_outcome = (\<lambda>t. Inr \<lparr>rowsAffected = length (rows t)\<rparr>)\<rparr>"

text \<open>Two rounds of \<open>insert(...).exec()\<close> on the same handle.\<close>

definition round1 :: "(error + IBulkResult) \<times> handle \<times> world" where
  "round1 = insert_exec accepting Order_handle (Single order1) with_pool"

definition round2 :: "(error + IBulkResult) \<times> handle \<times> world" where
  "round2 = insert_exec accepting (fst (snd round1)) (Single order2) (snd (snd round1))"

text \<open>Two calls of \<open>insert\<close> in a row on the same handle.\<close>

definition first_insert :: "(error + MssqlResult option) \<times> handle \<times> world" where
  "first_insert = insert_rows Order_handle (Single order1) with_pool"

definition second_insert :: "(error + MssqlResult option) \<times> handle \<times> world" where
  "second_insert = insert_rows (fst (snd first_insert)) (Array [order2, order1]) (snd (snd first_insert))"

section \<open>Lemmas about the operations\<close>

lemma foldl_add_row:
  "foldl (add_row cols) t rs = t\<lparr>rows := rows t @ map (row_values cols) rs\<rparr>"
  by (induction rs arbitrary: t) (simp_all add: add_row_def rows_add_def)

lemma nonempty_rows_guard:
  "nonempty_rows rws \<longleftrightarrow> \<not> (not_rows rws \<or> empty_array rws)"
  by (cases rws) simp_all

lemma nonempty_rows_flat: "nonempty_rows rws \<Longrightarrow> flat rws \<noteq> []"
  by (cases rws) simp_all

lemma request_no_pool: "pool w = None \<Longrightarrow> request w = Inl (Error ''Pool not initialized'')"
  by (simp add: request_def)

lemma request_pool:
  "pool w \<noteq> None \<Longrightarrow>
   request w = Inr (\<lparr>request_id = requests w, inputs = []\<rparr>, w\<lparr>requests := Suc (requests w)\<rparr>)"
  by (auto simp: request_def pool_request_def)

text \<open>What \<open>insert\<close> does once its guard has let the input through.\<close>

lemma insert_rows_accepted:
  assumes "innerColumns h \<noteq> []" and "nonempty_rows rws"
  shows "insert_rows h rws w =
     (case request w of
        Inl e \<Rightarrow>
          (Inl e,
           h\<lparr>innerTable := (innerTable h)\<lparr>rows := rows (innerTable h) @
              map (row_values (innerColumns h)) (flat rws)\<rparr>\<rparr>, w)
      | Inr (req, w') \<Rightarrow>
          (Inr (Some (MssqlResult req)),
           h\<lparr>innerTable := (innerTable h)\<lparr>rows := rows (innerTable h) @
              map (row_values (innerColumns h)) (flat rws)\<rparr>\<rparr>, w'))"
  using assms by (simp add: insert_rows_def nonempty_rows_guard foldl_add_row Let_def)

lemma length_concat_row_values:
  "length (concat (map (row_values cols) rs)) = length cols * length rs"
  by (induction rs) (simp_all add: row_values_def)

text \<open>The character classes of the source, read as the lists of the allow-list.\<close>

lemma is_lower_iff: "is_lower c \<longleftrightarrow> c \<in> set lower_letters"
proof -
  have "c \<in> set lower_letters \<longleftrightarrow> (of_char c :: nat) \<in> of_char ` set lower_letters"
    by (metis (no_types) inj_image_mem_iff inj_of_char)
  also have "\<dots> \<longleftrightarrow> 97 \<le> (of_char c :: nat) \<and> (of_char c :: nat) \<le> 122"
    by (simp add: lower_letters_def) arith
  finally show ?thesis by (simp add: is_lower_def)
qed

lemma is_upper_iff: "is_upper c \<longleftrightarrow> c \<in> set upper_letters"
proof -
  have "c \<in> set upper_letters \<longleftrightarrow> (of_char c :: nat) \<in> of_char ` set upper_letters"
    by (metis (no_types) inj_image_mem_iff inj_of_char)
  also have "\<dots> \<longleftrightarrow> 65 \<le> (of_char c :: nat) \<and> (of_char c :: nat) \<le> 90"
    by (simp add: upper_letters_def) arith
  finally show ?thesis by (simp add: is_upper_def)
qed

lemma is_digit_iff: "is_digit c \<longleftrightarrow> c \<in> set digits"
proof -
  have "c \<in> set digits \<longleftrightarrow> (of_char c :: nat) \<in> of_char ` set digits"
    by (metis (no_types) inj_image_mem_iff inj_of_char)
  also have "\<dots> \<longleftrightarrow> 48 \<le> (of_char c :: nat) \<and> (of_char c :: nat) \<le> 57"
    by (simp add: digits_def) arith
  finally show ?thesis by (simp add: is_digit_def)
qed

lemma forbiddenChars_iff: "forbiddenChars c \<longleftrightarrow> c \<notin> set allow_list"
  by (auto simp: forbiddenChars_def is_lower_iff is_upper_iff is_digit_iff allow_list_def)

lemma regex_test_iff: "regex_test forbiddenChars s \<longleftrightarrow> (\<exists>c \<in> set s. c \<notin> set allow_list)"
  by (simp add: regex_test_def list_ex_iff forbiddenChars_iff)

lemma escape_char_allowed: "\<not> forbiddenChars c \<Longrightarrow> escape_char c = [c]"
  by (auto simp: forbiddenChars_def escape_char_def unescaped_def)

lemma escape_allowed: "\<not> regex_test forbiddenChars s \<Longrightarrow> escape s = s"
  by (induction s) (simp_all add: regex_test_def escape_def escape_char_allowed)

text \<open>Lower-casing, and \<open>insert\<close> on a handle without columns.\<close>

lemma toLowerCase_Nil_iff: "toLowerCase s = [] \<longleftrightarrow> s = []"
  by (simp add: toLowerCase_def)

lemma lower_char_fixed: "lower_char c = c \<longleftrightarrow> \<not> is_upper c"
proof (cases "is_upper c")
  case True
  then have "(of_char c :: nat) + 32 < 256" by (simp add: is_upper_def)
  then have "of_char (char_of ((of_char c :: nat) + 32)) = (of_char c :: nat) + 32"
    by simp
  then have "char_of ((of_char c :: nat) + 32) \<noteq> c" by (metis add_cancel_right_right zero_neq_numeral)
  with True show ?thesis by (simp add: lower_char_def)
next
  case False
  then show ?thesis by (simp add: lower_char_def)
qed

lemma toLowerCase_fixed: "toLowerCase s = s \<longleftrightarrow> \<not> list_ex is_upper s"
  by (induction s) (simp_all add: toLowerCase_def lower_char_fixed)

lemma insert_rows_no_columns: "innerColumns h = [] \<Longrightarrow> insert_rows h rws w = (Inr None, h, w)"
  by (simp add: insert_rows_def)

text \<open>The handles that \<open>createForClass\<close> returns have at least one column.\<close>

lemma columns_registered_empty: "columns_registered no_metadata"
  by (simp add: columns_registered_def no_metadata_def)

lemma columns_registered_Table:
  "columns_registered md \<Longrightarrow> columns_registered (Table tableName ctor md)"
  by (simp add: columns_registered_def Table_def)

lemma columns_registered_Column:
  "columns_registered md \<Longrightarrow> columns_registered (Column opts designType ctor propertyKey md)"
  by (simp add: columns_registered_def Column_def Let_def)

lemma createForClass_has_columns:
  assumes "columns_registered md" and "createForClass md tbl w = Inr h"
  shows "innerColumns h \<noteq> []"
  using assms
  by (auto simp: columns_registered_def createForClass_def Let_def
      split: sum.splits option.splits)

section \<open>The claims\<close>

text \<open>
  C1. On a handle with at least one column, \<open>insert\<close> of a non-empty row input (one
  row, or a sequence of rows) appends to the row buffer, for each row, the values of
  the declared columns: one value per column, the i-th value read from the i-th column.
  Two calls in a row accumulate: the second appends after what the first left, and the
  buffer holds the values it held before plus the \<open>m\<close> values of the first call plus
  the \<open>n\<close> values of the second. This holds whether or not a pool exists.
\<close>

theorem insert_appends_in_column_order:
  assumes cols: "innerColumns h \<noteq> []"
    and r1: "nonempty_rows rws1" and r2: "nonempty_rows rws2"
    and i1: "insert_rows h rws1 w = (res1, h1, w1)"
    and i2: "insert_rows h1 rws2 w1 = (res2, h2, w2)"
  shows "rows (innerTable h1) = rows (innerTable h) @ map (row_values (innerColumns h)) (flat rws1)
       \<and> (\<forall>row \<in> set (flat rws1). length (row_values (innerColumns h) row) = length (innerColumns h)
            \<and> (\<forall>i < length (innerColumns h).
                  row_values (innerColumns h) row ! i = get_prop row (innerColumns h ! i)))
       \<and> rows (innerTable h2) = rows (innerTable h1) @ map (row_values (innerColumns h)) (flat rws2)
       \<and> buffered_values h1 = buffered_values h + length (innerColumns h) * length (flat rws1)
       \<and> buffered_values h2 =
           buffered_values h + length (innerColumns h) * length (flat rws1)
             + length (innerColumns h) * length (flat rws2)
       \<and> 0 < length (innerColumns h) * length (flat rws1)"
proof -
  let ?app = "\<lambda>g rs. g\<lparr>innerTable := (innerTable g)\<lparr>rows := rows (innerTable g) @
     map (row_values (innerColumns g)) (flat rs)\<rparr>\<rparr>"
  have h1: "h1 = ?app h rws1"
    using i1 insert_rows_accepted [OF cols r1, of w] by (auto split: sum.splits)
  then have cols1: "innerColumns h1 = innerColumns h" by simp
  then have "innerColumns h1 \<noteq> []" using cols by simp
  from insert_rows_accepted [OF this r2, of w1] i2 have h2: "h2 = ?app h1 rws2"
    by (auto split: sum.splits)
  have a: "rows (innerTable h1) =
      rows (innerTable h) @ map (row_values (innerColumns h)) (flat rws1)"
    using h1 by simp
  have b: "rows (innerTable h2) =
      rows (innerTable h1) @ map (row_values (innerColumns h)) (flat rws2)"
    using h2 cols1 by simp
  have c: "\<forall>row \<in> set (flat rws1). length (row_values (innerColumns h) row) = length (innerColumns h)
            \<and> (\<forall>i < length (innerColumns h).
                  row_values (innerColumns h) row ! i = get_prop row (innerColumns h ! i))"
    by (simp add: row_values_def)
  have d: "buffered_values h1 = buffered_values h + length (innerColumns h) * length (flat rws1)"
    by (simp add: buffered_values_def a length_concat_row_values)
  have e: "buffered_values h2 = buffered_values h1 + length (innerColumns h) * length (flat rws2)"
    by (simp add: buffered_values_def b length_concat_row_values)
  have f: "0 < length (innerColumns h) * length (flat rws1)"
    using cols nonempty_rows_flat [OF r1] by simp
  show ?thesis using a b c d e f by simp
qed

theorem insert_appends_in_column_order_witness:
  "innerColumns Order_handle \<noteq> [] \<and> nonempty_rows (Single order1) \<and> nonempty_rows (Array [order2, order1])
   \<and> rows (innerTable (fst (snd first_insert))) = [[JNumber 1, JNumber 250, JString ''first'']]
   \<and> rows (innerTable (fst (snd second_insert))) =
       [[JNumber 1, JNumber 250, JString ''first''], [JNumber 2, JUndefined, JString ''second''],
        [JNumber 1, JNumber 250, JString ''first'']]
   \<and> buffered_values Order_handle = 0
   \<and> buffered_values (fst (snd first_insert)) = 3
   \<and> buffered_values (fst (snd second_insert)) = 3 + 6"
proof -
  have a: "innerColumns Order_handle \<noteq> []" by (simp add: Order_handle_def)
  have b: "nonempty_rows (Single order1)" "nonempty_rows (Array [order2, order1])" by simp_all
  have c: "insert_rows Order_handle (Single order1) with_pool =
      (fst first_insert, fst (snd first_insert), snd (snd first_insert))"
    by (simp add: first_insert_def)
  have d: "insert_rows (fst (snd first_insert)) (Array [order2, order1]) (snd (snd first_insert)) =
      (fst second_insert, fst (snd second_insert), snd (snd second_insert))"
    by (simp add: second_insert_def)
  have e: "rows (innerTable Order_handle) = []" "buffered_values Order_handle = 0"
    "length (innerColumns Order_handle) = 3"
    by (simp_all add: Order_handle_def Order_table_def buffered_values_def)
  have f: "map (row_values (innerColumns Order_handle)) (flat (Single order1)) =
      [[JNumber 1, JNumber 250, JString ''first'']]"
    "map (row_values (innerColumns Order_handle)) (flat (Array [order2, order1])) =
      [[JNumber 2, JUndefined, JString ''second''], [JNumber 1, JNumber 250, JString ''first'']]"
    by code_simp+
  show ?thesis
    using insert_appends_in_column_order [OF a b c d] a b e f by simp
qed

text \<open>
  C2. When no pool has been initialized, \<open>table.drop\<close>, \<open>db.useDb\<close> with a name of the
  allow-list, and \<open>insert(rows).exec()\<close> for rows that \<open>insert\<close> accepts all fail with the
  error "Pool not initialized"; none of them succeeds and nothing reaches the server.
  For \<open>insert(rows).exec()\<close> the error is raised by \<open>insert\<close>, before \<open>exec\<close> is reached.
\<close>

theorem operations_fail_without_pool:
  assumes "pool w = None"
  shows "drop_table srv h w = (Inl (Error ''Pool not initialized''), w)
     \<and> (set dbname \<subseteq> set allow_list \<longrightarrow>
          useDb srv dbname w = (Inl (Error ''Pool not initialized''), w))
     \<and> (innerColumns h \<noteq> [] \<and> nonempty_rows rws \<longrightarrow>
          fst (insert_rows h rws w) = Inl (Error ''Pool not initialized'')
          \<and> fst (insert_exec srv h rws w) = Inl (Error ''Pool not initialized'')
          \<and> snd (snd (insert_exec srv h rws w)) = w)"
proof (intro conjI impI)
  show "drop_table srv h w = (Inl (Error ''Pool not initialized''), w)"
    by (simp add: drop_table_def request_no_pool [OF assms])
next
  assume "set dbname \<subseteq> set allow_list"
  then have "\<not> regex_test forbiddenChars dbname" by (auto simp: regex_test_iff)
  then show "useDb srv dbname w = (Inl (Error ''Pool not initialized''), w)"
    by (simp add: useDb_def request_no_pool [OF assms])
next
  assume a: "innerColumns h \<noteq> [] \<and> nonempty_rows rws"
  then have i: "insert_rows h rws w =
     (Inl (Error ''Pool not initialized''),
      h\<lparr>innerTable := (innerTable h)\<lparr>rows := rows (innerTable h) @
         map (row_values (innerColumns h)) (flat rws)\<rparr>\<rparr>, w)"
    using assms by (simp add: insert_rows_accepted request_no_pool)
  show "fst (insert_rows h rws w) = Inl (Error ''Pool not initialized'')" by (simp add: i)
  show "fst (insert_exec srv h rws w) = Inl (Error ''Pool not initialized'')"
    by (simp add: insert_exec_def i)
  show "snd (snd (insert_exec srv h rws w)) = w"
    by (simp add: insert_exec_def i)
qed

theorem operations_fail_without_pool_witness:
  "pool no_pool = None
   \<and> drop_table accepting Order_handle no_pool = (Inl (Error ''Pool not initialized''), no_pool)
   \<and> set ''sales_db'' \<subseteq> set allow_list
   \<and> useDb accepting ''sales_db'' no_pool = (Inl (Error ''Pool not initialized''), no_pool)
   \<and> innerColumns Order_handle \<noteq> [] \<and> nonempty_rows (Single order1)
   \<and> fst (insert_exec accepting Order_handle (Single order1) no_pool) =
       Inl (Error ''Pool not initialized'')
   \<and> sent (snd (snd (insert_exec accepting Order_handle (Single order1) no_pool))) = []"
proof -
  have a: "pool no_pool = None" "sent no_pool = []" by (simp_all add: no_pool_def)
  have b: "set ''sales_db'' \<subseteq> set allow_list"
    by (simp add: allow_list_def lower_letters_def upper_letters_def digits_def)
  have c: "innerColumns Order_handle \<noteq> []" by (simp add: Order_handle_def)
  have d: "nonempty_rows (Single order1)" by simp
  show ?thesis
    using operations_fail_without_pool [OF a(1), of accepting Order_handle "''sales_db''" "Single order1"]
      a b c d
    by simp
qed

text \<open>
  C3. \<open>db.useDb(name)\<close>: a name with a character outside letters, digits and the
  underscore fails with the error "Invalid database name" and the state is untouched,
  so no request was made and no statement was issued. A name made of allowed
  characters only passes the validation and, a pool being there, exactly one statement
  is issued, \<open>USE\<close> followed by the name as it was given; the call succeeds when the
  server accepts the statement.
\<close>

theorem useDb_validates_name:
  "((\<exists>c \<in> set dbname. c \<notin> set allow_list) \<longrightarrow>
      useDb srv dbname w =
        (Inl (Error (''Invalid database name '' @ [CHR 0x27] @ dbname @ [CHR 0x27])), w))
   \<and> (set dbname \<subseteq> set allow_list \<and> pool w \<noteq> None \<longrightarrow>
        fst (useDb srv dbname w) =
          (case query_outcome srv (''USE '' @ dbname) of None \<Rightarrow> Inr () | Some e \<Rightarrow> Inl e)
        \<and> sent (snd (useDb srv dbname w)) = sent w @ [Query (''USE '' @ dbname) []])"
proof (intro conjI impI)
  assume "\<exists>c \<in> set dbname. c \<notin> set allow_list"
  then have "regex_test forbiddenChars dbname" by (simp add: regex_test_iff)
  then show "useDb srv dbname w =
      (Inl (Error (''Invalid database name '' @ [CHR 0x27] @ dbname @ [CHR 0x27])), w)"
    by (simp add: useDb_def)
next
  assume a: "set dbname \<subseteq> set allow_list \<and> pool w \<noteq> None"
  then have v: "\<not> regex_test forbiddenChars dbname" by (auto simp: regex_test_iff)
  from a have p: "pool w \<noteq> None" by simp
  have u: "useDb srv dbname w =
      query srv \<lparr>request_id = requests w, inputs = []\<rparr> (''USE '' @ dbname)
        (w\<lparr>requests := Suc (requests w)\<rparr>)"
    using v by (simp add: useDb_def request_pool [OF p] escape_allowed [OF v])
  show "fst (useDb srv dbname w) =
      (case query_outcome srv (''USE '' @ dbname) of None \<Rightarrow> Inr () | Some e \<Rightarrow> Inl e)"
    by (simp add: u query_def)
  show "sent (snd (useDb srv dbname w)) = sent w @ [Query (''USE '' @ dbname) []]"
    by (simp add: u query_def)
qed

theorem useDb_validates_name_witness:
  "(\<exists>c \<in> set ''sales; DROP TABLE x''. c \<notin> set allow_list)
   \<and> useDb accepting ''sales; DROP TABLE x'' with_pool =
       (Inl (Error (''Invalid database name '' @ [CHR 0x27] @ ''sales; DROP TABLE x'' @ [CHR 0x27])),
        with_pool)
   \<and> sent with_pool = []
   \<and> set ''sales_db'' \<subseteq> set allow_list \<and> pool with_pool \<noteq> None
   \<and> fst (useDb accepting ''sales_db'' with_pool) = Inr ()
   \<and> sent (snd (useDb accepting ''sales_db'' with_pool)) = [Query ''USE sales_db'' []]"
proof -
  have a: "\<exists>c \<in> set ''sales; DROP TABLE x''. c \<notin> set allow_list"
    by (rule bexI [of _ "CHR '';''"]) (simp_all add: allow_list_def lower_letters_def upper_letters_def digits_def)
  have b: "set ''sales_db'' \<subseteq> set allow_list"
    by (simp add: allow_list_def lower_letters_def upper_letters_def digits_def)
  have c: "pool with_pool \<noteq> None" "sent with_pool = []" by (simp_all add: with_pool_def)
  have d: "query_outcome accepting (''USE '' @ ''sales_db'') = None" by (simp add: accepting_def)
  show ?thesis
    using useDb_validates_name [of "''sales; DROP TABLE x''" accepting with_pool]
      useDb_validates_name [of "''sales_db''" accepting with_pool] a b c d
    by simp
qed

text \<open>
  C4, as the code has it. On a handle with at least one column and for a non-empty row
  input, \<open>insert\<close> buffers the rows and then itself takes the fresh request from the
  shared pool: with no pool it throws "Pool not initialized", with a pool the pool has
  served one more request when \<open>insert\<close> returns, and the returned object holds that
  request. \<open>insert\<close> sends nothing to the server. \<open>exec\<close> makes no request of its own: it
  sends one bulk copy of the handle's table on the request it was given.
\<close>

theorem insert_makes_the_request:
  assumes "innerColumns h \<noteq> []" and "nonempty_rows rws"
  shows "(pool w = None \<longrightarrow>
            fst (insert_rows h rws w) = Inl (Error ''Pool not initialized'')
            \<and> snd (snd (insert_rows h rws w)) = w)
       \<and> (pool w \<noteq> None \<longrightarrow>
            fst (insert_rows h rws w) = Inr (Some (MssqlResult \<lparr>request_id = requests w, inputs = []\<rparr>))
            \<and> snd (snd (insert_rows h rws w)) = w\<lparr>requests := Suc (requests w)\<rparr>)
       \<and> fst (snd (insert_rows h rws w)) =
            h\<lparr>innerTable := (innerTable h)\<lparr>rows := rows (innerTable h) @
               map (row_values (innerColumns h)) (flat rws)\<rparr>\<rparr>
       \<and> snd (snd (exec srv r g v)) = v\<lparr>sent := sent v @ [Bulk (innerTable g)]\<rparr>"
proof -
  note i = insert_rows_accepted [OF assms, of w]
  have a: "pool w = None \<longrightarrow>
            fst (insert_rows h rws w) = Inl (Error ''Pool not initialized'')
            \<and> snd (snd (insert_rows h rws w)) = w"
    by (simp add: i request_no_pool)
  have b: "pool w \<noteq> None \<longrightarrow>
            fst (insert_rows h rws w) = Inr (Some (MssqlResult \<lparr>request_id = requests w, inputs = []\<rparr>))
            \<and> snd (snd (insert_rows h rws w)) = w\<lparr>requests := Suc (requests w)\<rparr>"
    by (simp add: i request_pool)
  have c: "fst (snd (insert_rows h rws w)) =
            h\<lparr>innerTable := (innerTable h)\<lparr>rows := rows (innerTable h) @
               map (row_values (innerColumns h)) (flat rws)\<rparr>\<rparr>"
    by (simp add: i split: sum.splits)
  have d: "snd (snd (exec srv r g v)) = v\<lparr>sent := sent v @ [Bulk (innerTable g)]\<rparr>"
    by (cases r) (simp add: bulk_def)
  show ?thesis using a b c d by simp
qed

theorem insert_makes_the_request_witness:
  "innerColumns Order_handle \<noteq> [] \<and> nonempty_rows (Single order1)
   \<and> pool with_pool \<noteq> None
   \<and> fst first_insert = Inr (Some (MssqlResult \<lparr>request_id = 0, inputs = []\<rparr>))
   \<and> requests (snd (snd first_insert)) = 1 \<and> sent (snd (snd first_insert)) = []
   \<and> pool no_pool = None
   \<and> fst (insert_rows Order_handle (Single order1) no_pool) = Inl (Error ''Pool not initialized'')"
proof -
  have a: "innerColumns Order_handle \<noteq> []" by (simp add: Order_handle_def)
  have b: "nonempty_rows (Single order1)" by simp
  have c: "pool with_pool \<noteq> None" "requests with_pool = 0" "sent with_pool = []"
    by (simp_all add: with_pool_def)
  have d: "pool no_pool = None" by (simp add: no_pool_def)
  show ?thesis
    using insert_makes_the_request [OF a b, of with_pool accepting]
      insert_makes_the_request [OF a b, of no_pool accepting] a b c d
    by (simp add: first_insert_def)
qed

text \<open>
  C4 as the specification words it, "insert performs no pool interaction, the request
  is opened only by exec", fails on the example: after \<open>insert\<close> alone the pool has
  served a request, \<open>exec\<close> adds none, and without a pool \<open>insert\<close> itself throws.
\<close>

theorem insert_defers_request_counterexample:
  "requests with_pool = 0
   \<and> fst first_insert = Inr (Some (MssqlResult \<lparr>request_id = 0, inputs = []\<rparr>))
   \<and> requests (snd (snd first_insert)) = 1
   \<and> snd (snd first_insert) \<noteq> with_pool
   \<and> requests (snd (snd round1)) = 1
   \<and> fst (insert_rows Order_handle (Single order1) no_pool) = Inl (Error ''Pool not initialized'')"
  by code_simp

text \<open>
  C5, as the code has it. \<open>exec\<close> sends the whole buffer as one bulk copy and leaves the
  handle as it was: the row buffer is not emptied. A following \<open>insert(...).exec()\<close> on
  the handle therefore sends the rows already sent once more, followed by the new rows.
\<close>

theorem exec_keeps_buffer:
  assumes "exec srv r h w = (res, h1, w1)"
  shows "h1 = h
       \<and> res = bulk_outcome srv (innerTable h)
       \<and> w1 = w\<lparr>sent := sent w @ [Bulk (innerTable h)]\<rparr>
       \<and> (innerColumns h \<noteq> [] \<and> nonempty_rows rws \<and> pool w \<noteq> None \<longrightarrow>
            sent (snd (snd (insert_exec srv h1 rws w1))) =
              sent w1 @ [Bulk ((innerTable h)\<lparr>rows := rows (innerTable h) @
                 map (row_values (innerColumns h)) (flat rws)\<rparr>)])"
proof -
  from assms have e: "h1 = h" "res = bulk_outcome srv (innerTable h)"
    "w1 = w\<lparr>sent := sent w @ [Bulk (innerTable h)]\<rparr>"
    by (cases r; auto simp: bulk_def)+
  have "sent (snd (snd (insert_exec srv h rws w1))) =
           sent w1 @ [Bulk ((innerTable h)\<lparr>rows := rows (innerTable h) @
              map (row_values (innerColumns h)) (flat rws)\<rparr>)]"
    if a: "innerColumns h \<noteq> []" "nonempty_rows rws" and p: "pool w \<noteq> None"
  proof -
    from e p have p1: "pool w1 \<noteq> None" by simp
    show ?thesis
      by (simp add: insert_exec_def insert_rows_accepted [OF a] request_pool [OF p1] bulk_def)
  qed
  with e show ?thesis by simp
qed

theorem exec_keeps_buffer_witness:
  "innerColumns (fst (snd first_insert)) \<noteq> [] \<and> nonempty_rows (Single order2)
   \<and> pool (snd (snd first_insert)) \<noteq> None
   \<and> fst (snd round1) = fst (snd first_insert)
   \<and> rows (innerTable (fst (snd round1))) = [[JNumber 1, JNumber 250, JString ''first'']]
   \<and> sent (snd (snd round1)) = [Bulk (innerTable (fst (snd first_insert)))]
   \<and> sent (snd (snd round2)) = sent (snd (snd round1)) @
       [Bulk (Order_table\<lparr>rows := [[JNumber 1, JNumber 250, JString ''first''],
                                   [JNumber 2, JUndefined, JString ''second'']]\<rparr>)]"
proof -
  have a: "innerColumns (fst (snd first_insert)) \<noteq> []" by code_simp
  have b: "nonempty_rows (Single order2)" by simp
  have c: "pool (snd (snd first_insert)) \<noteq> None" by code_simp
  have ex: "exec accepting (MssqlResult \<lparr>request_id = 0, inputs = []\<rparr>) (fst (snd first_insert))
      (snd (snd first_insert)) = (fst round1, fst (snd round1), snd (snd round1))"
    by code_simp
  have d: "sent (snd (snd first_insert)) = []" by code_simp
  have e: "rows (innerTable (fst (snd first_insert))) = [[JNumber 1, JNumber 250, JString ''first'']]"
    by code_simp
  have f: "(innerTable (fst (snd first_insert)))\<lparr>rows := rows (innerTable (fst (snd first_insert))) @
      map (row_values (innerColumns (fst (snd first_insert)))) (flat (Single order2))\<rparr> =
      Order_table\<lparr>rows := [[JNumber 1, JNumber 250, JString ''first''],
                                   [JNumber 2, JUndefined, JString ''second'']]\<rparr>"
    by code_simp
  note t = exec_keeps_buffer [OF ex, of "Single order2"]
  from t have t1: "fst (snd round1) = fst (snd first_insert)" by blast
  from t have t3: "snd (snd round1) = (snd (snd first_insert))\<lparr>sent :=
      sent (snd (snd first_insert)) @ [Bulk (innerTable (fst (snd first_insert)))]\<rparr>" by blast
  from t a b c have t4: "sent (snd (snd round2)) = sent (snd (snd round1)) @
      [Bulk ((innerTable (fst (snd first_insert)))\<lparr>rows := rows (innerTable (fst (snd first_insert))) @
      map (row_values (innerColumns (fst (snd first_insert)))) (flat (Single order2))\<rparr>)]"
    unfolding round2_def by blast
  have g: "rows (innerTable (fst (snd round1))) = [[JNumber 1, JNumber 250, JString ''first'']]"
    by (simp only: t1 e)
  have h: "sent (snd (snd round1)) = [Bulk (innerTable (fst (snd first_insert)))]"
    by (subst t3) (simp add: d)
  have i: "sent (snd (snd round2)) = sent (snd (snd round1)) @
       [Bulk (Order_table\<lparr>rows := [[JNumber 1, JNumber 250, JString ''first''],
                                   [JNumber 2, JUndefined, JString ''second'']]\<rparr>)]"
    by (simp only: t4 f)
  from a b c t1 g h i show ?thesis by blast
qed

text \<open>
  C5 as the specification words it, "after exec the row buffer is empty and a later
  flush never re-sends rows", fails on the example: after the first round the buffer
  still holds the first row, and the second bulk copy carries both rows.
\<close>

theorem exec_consumes_buffer_counterexample:
  "fst round1 = Inr \<lparr>rowsAffected = 1\<rparr>
   \<and> rows (innerTable (fst (snd round1))) = [[JNumber 1, JNumber 250, JString ''first'']]
   \<and> fst round2 = Inr \<lparr>rowsAffected = 2\<rparr>
   \<and> sent (snd (snd round2)) =
       [Bulk (Order_table\<lparr>rows := [[JNumber 1, JNumber 250, JString ''first'']]\<rparr>),
        Bulk (Order_table\<lparr>rows := [[JNumber 1, JNumber 250, JString ''first''],
                                   [JNumber 2, JUndefined, JString ''second'']]\<rparr>)]"
  by code_simp

text \<open>
  C6, as the code has it. On the handle that \<open>createForClass\<close> returns, every own property
  of the behaviour prototype but \<open>constructor\<close> is defined: \<open>insert\<close>, \<open>table\<close>, \<open>db\<close>, the
  helpers \<open>request\<close> and \<open>preparedStatement\<close>, and \<open>onApplicationShutdown\<close> as well. Only the
  static type \<open>MssqlTable\<close> of the result omits the shutdown hook.
\<close>

theorem createForClass_properties:
  assumes "createForClass md tbl w = Inr h"
  shows "properties h =
           [''onApplicationShutdown'', ''preparedStatement'', ''request'', ''db'', ''table'', ''insert'']
       \<and> set (properties h) = set prototype_descriptors - {''constructor''}
       \<and> ''insert'' \<in> set (properties h) \<and> ''table'' \<in> set (properties h)
       \<and> ''db'' \<in> set (properties h) \<and> ''onApplicationShutdown'' \<in> set (properties h)
       \<and> ''constructor'' \<notin> set (properties h)"
proof -
  from assms have "properties h = delete_descriptor ''constructor'' prototype_descriptors"
    by (auto simp: createForClass_def Let_def split: sum.splits option.splits)
  then have p: "properties h =
      [''onApplicationShutdown'', ''preparedStatement'', ''request'', ''db'', ''table'', ''insert'']"
    by (simp add: delete_descriptor_def prototype_descriptors_def)
  have "set prototype_descriptors - {''constructor''} =
      set [''onApplicationShutdown'', ''preparedStatement'', ''request'', ''db'', ''table'', ''insert'']"
    by (auto simp: prototype_descriptors_def)
  with p show ?thesis by simp
qed

theorem createForClass_properties_witness:
  "createForClass Order_metadata Order with_pool = Inr Order_handle
   \<and> properties Order_handle =
       [''onApplicationShutdown'', ''preparedStatement'', ''request'', ''db'', ''table'', ''insert'']"
proof -
  have a: "createForClass Order_metadata Order with_pool = Inr Order_handle" by code_simp
  show ?thesis using createForClass_properties [OF a] a by simp
qed

text \<open>
  C6 as the specification words it, "the handle never carries the shutdown hook", fails
  on the handle of \<open>Order\<close>.
\<close>

theorem handle_lacks_shutdown_hook_counterexample:
  "createForClass Order_metadata Order no_pool = Inr Order_handle
   \<and> ''onApplicationShutdown'' \<in> set (properties Order_handle)"
  by code_simp

text \<open>
  C7. For a class without column metadata the code does not return a handle with an
  empty column list: \<open>columns\<close> is \<open>undefined\<close>, line 220 guards it with \<open>?.\<close> and \<open>|| []\<close>,
  but the loop of line 225 iterates over it and throws a \<open>TypeError\<close>. The theorem
  evaluates \<open>createForClass\<close> on every such class. On a handle whose column list is
  empty \<open>insert\<close> is a no-op, as the claim says, but \<open>createForClass\<close> makes no such
  handle.
\<close>

theorem createForClass_unannotated_throws:
  assumes "columnMetadata md (class_id tbl) = None"
  shows "createForClass md tbl w = Inl (TypeError ''columns is not iterable'')
       \<and> (innerColumns h = [] \<longrightarrow> insert_rows h rws v = (Inr None, h, v))"
  using assms by (simp add: createForClass_def new_MssqlTable_def Let_def insert_rows_no_columns)

theorem createForClass_unannotated_throws_witness:
  "columnMetadata no_metadata (class_id Plain) = None
   \<and> createForClass no_metadata Plain no_pool = Inl (TypeError ''columns is not iterable'')
   \<and> columnMetadata (Table (Some ''plain'') Plain Order_metadata) (class_id Plain) = None
   \<and> createForClass (Table (Some ''plain'') Plain Order_metadata) Plain with_pool =
       Inl (TypeError ''columns is not iterable'')"
proof -
  have a: "columnMetadata no_metadata (class_id Plain) = None" by (simp add: no_metadata_def)
  have b: "columnMetadata (Table (Some ''plain'') Plain Order_metadata) (class_id Plain) = None"
    by (simp add: Table_def Order_metadata_def Column_def no_metadata_def Plain_def Order_def)
  show ?thesis
    using createForClass_unannotated_throws [OF a, of no_pool]
      createForClass_unannotated_throws [OF b, of with_pool] a b
    by simp
qed

text \<open>
  C8, as the code has it. While no pool is stored: a construction whose options are not
  a symbol and carry no \<open>config\<close> throws "MSSQL_MODULE_OPTIONS.config is required" to
  the constructing caller, and nothing is logged. A construction with a \<open>config\<close>
  returns normally and starts connecting; when that fails, the error is logged with
  \<open>console.error\<close>, the static pool stays unset and the next construction with a
  \<open>config\<close> starts connecting again; when it succeeds, the pool is stored.
\<close>

theorem first_pool_construction:
  assumes "pool w = None"
  shows "(\<not> is_symbol opts \<and> options_config opts = None \<longrightarrow>
            new_MssqlTable opts w = Inl (Error ''MSSQL_MODULE_OPTIONS.config is required''))
       \<and> (options_config opts = Some cfg \<longrightarrow>
            new_MssqlTable opts w = Inr (Some (ConnectionPool cfg))
            \<and> pool (connect_settled (ConnectionPool cfg) (Rejected err) w) = None
            \<and> console (connect_settled (ConnectionPool cfg) (Rejected err) w) =
                console w @ [(''Error creating connection pool'', err)]
            \<and> new_MssqlTable opts (connect_settled (ConnectionPool cfg) (Rejected err) w) =
                Inr (Some (ConnectionPool cfg))
            \<and> pool (connect_settled (ConnectionPool cfg) Resolved w) = Some (ConnectionPool cfg))"
proof -
  have a: "\<not> is_symbol opts \<and> options_config opts = None \<longrightarrow>
            new_MssqlTable opts w = Inl (Error ''MSSQL_MODULE_OPTIONS.config is required'')"
    using assms by (cases opts) (auto simp: new_MssqlTable_def)
  have b: "options_config opts = Some cfg \<longrightarrow>
            new_MssqlTable opts w = Inr (Some (ConnectionPool cfg))
            \<and> pool (connect_settled (ConnectionPool cfg) (Rejected err) w) = None
            \<and> console (connect_settled (ConnectionPool cfg) (Rejected err) w) =
                console w @ [(''Error creating connection pool'', err)]
            \<and> new_MssqlTable opts (connect_settled (ConnectionPool cfg) (Rejected err) w) =
                Inr (Some (ConnectionPool cfg))
            \<and> pool (connect_settled (ConnectionPool cfg) Resolved w) = Some (ConnectionPool cfg)"
    using assms by (cases opts) (auto simp: new_MssqlTable_def)
  show ?thesis using a b by simp
qed

theorem first_pool_construction_witness:
  "pool no_pool = None
   \<and> \<not> is_symbol OptUndefined \<and> options_config OptUndefined = None
   \<and> new_MssqlTable OptUndefined no_pool = Inl (Error ''MSSQL_MODULE_OPTIONS.config is required'')
   \<and> options_config (OptObject (Some ''server=db'')) = Some ''server=db''
   \<and> new_MssqlTable (OptObject (Some ''server=db'')) no_pool = Inr (Some (ConnectionPool ''server=db''))
   \<and> connect_settled (ConnectionPool ''server=db'') (Rejected (BackendError ''ESOCKET'')) no_pool =
       no_pool\<lparr>console := [(''Error creating connection pool'', BackendError ''ESOCKET'')]\<rparr>
   \<and> new_MssqlTable (OptObject (Some ''server=db''))
        (connect_settled (ConnectionPool ''server=db'') (Rejected (BackendError ''ESOCKET'')) no_pool) =
       Inr (Some (ConnectionPool ''server=db''))"
proof -
  have a: "pool no_pool = None" "console no_pool = []" by (simp_all add: no_pool_def)
  have b: "\<not> is_symbol OptUndefined" "options_config OptUndefined = None"
    "options_config (OptObject (Some ''server=db'')) = Some ''server=db''" by simp_all
  show ?thesis
    using first_pool_construction [OF a(1), of OptUndefined]
      first_pool_construction [OF a(1), of "OptObject (Some ''server=db'')" "''server=db''" "BackendError ''ESOCKET''"]
      a b
    by simp
qed

text \<open>
  C8 as the specification words it, "a missing configuration is caught and logged
  rather than thrown", fails: the constructor throws.
\<close>

theorem construction_failures_logged_counterexample:
  "pool no_pool = None
   \<and> new_MssqlTable (OptObject None) no_pool = Inl (Error ''MSSQL_MODULE_OPTIONS.config is required'')
   \<and> new_MssqlTable OptUndefined no_pool = Inl (Error ''MSSQL_MODULE_OPTIONS.config is required'')"
  by code_simp

text \<open>
  C9, as the code has it. The stored table name is the lower-cased supplied name when a
  non-empty name is supplied, and the lower-cased class name when no name or the empty
  name is supplied: \<open>lowercase(name) || lowercase(class.name)\<close>. A supplied non-empty
  name is stored exactly as given only if it has no upper-case letter.
\<close>

theorem Table_stores_lowercased_name:
  "tableMetadata (Table tableName ctor md) (class_id ctor) =
     Some (case tableName of
             None \<Rightarrow> toLowerCase (class_name ctor)
           | Some n \<Rightarrow> if n = [] then toLowerCase (class_name ctor) else toLowerCase n)
   \<and> (tableMetadata (Table (Some n) ctor md) (class_id ctor) = Some n
        \<longleftrightarrow> (if n = [] then class_name ctor = [] else \<not> list_ex is_upper n))"
proof -
  have a: "tableMetadata (Table tableName ctor md) (class_id ctor) =
     Some (case tableName of
             None \<Rightarrow> toLowerCase (class_name ctor)
           | Some n \<Rightarrow> if n = [] then toLowerCase (class_name ctor) else toLowerCase n)"
    by (simp add: Table_def or_else_def toLowerCase_Nil_iff split: option.splits)
  have b: "tableMetadata (Table (Some n) ctor md) (class_id ctor) = Some n
        \<longleftrightarrow> (if n = [] then class_name ctor = [] else \<not> list_ex is_upper n)"
    by (auto simp: Table_def or_else_def toLowerCase_Nil_iff toLowerCase_fixed)
  show ?thesis using a b by simp
qed

theorem Table_stores_lowercased_name_witness:
  "tableMetadata (Table (Some ''Orders'') Order no_metadata) (class_id Order) = Some ''orders''
   \<and> tableMetadata (Table None Order no_metadata) (class_id Order) = Some ''order''
   \<and> tableMetadata (Table (Some ''orders'') Order no_metadata) (class_id Order) = Some ''orders''"
proof -
  have a: "toLowerCase ''Orders'' = ''orders''" "toLowerCase ''orders'' = ''orders''"
    "toLowerCase (class_name Order) = ''order''" by code_simp+
  show ?thesis
    using Table_stores_lowercased_name [of "Some ''Orders''" Order no_metadata]
      Table_stores_lowercased_name [of None Order no_metadata]
      Table_stores_lowercased_name [of "Some ''orders''" Order no_metadata] a
    by simp
qed

text \<open>
  C9 as the specification words it, "a supplied name is stored exactly as given", fails
  for the name \<open>Orders\<close>, which is stored as \<open>orders\<close>; the empty name is replaced by the
  class name.
\<close>

theorem Table_stores_given_name_counterexample:
  "tableMetadata (Table (Some ''Orders'') Order no_metadata) (class_id Order) = Some ''orders''
   \<and> tableMetadata (Table (Some ''Orders'') Order no_metadata) (class_id Order) \<noteq> Some ''Orders''
   \<and> tableMetadata (Table (Some []) Order no_metadata) (class_id Order) = Some ''order''"
  by code_simp

text \<open>
  C10. On a handle with at least one column and for a non-empty row input, when no
  pool exists \<open>insert\<close> throws the error "Pool not initialized", and the handle it
  leaves behind already holds the values of every supplied row at the end of its
  buffer: the call is not atomic.
\<close>

theorem insert_without_pool_keeps_rows:
  assumes "innerColumns h \<noteq> []" and "nonempty_rows rws" and "pool w = None"
  shows "insert_rows h rws w =
     (Inl (Error ''Pool not initialized''),
      h\<lparr>innerTable := (innerTable h)\<lparr>rows := rows (innerTable h) @
         map (row_values (innerColumns h)) (flat rws)\<rparr>\<rparr>,
      w)"
  using assms by (simp add: insert_rows_accepted request_no_pool)

theorem insert_without_pool_keeps_rows_witness:
  "innerColumns Order_handle \<noteq> [] \<and> nonempty_rows (Array [order1, order2]) \<and> pool no_pool = None
   \<and> fst (insert_rows Order_handle (Array [order1, order2]) no_pool) =
       Inl (Error ''Pool not initialized'')
   \<and> rows (innerTable (fst (snd (insert_rows Order_handle (Array [order1, order2]) no_pool)))) =
       [[JNumber 1, JNumber 250, JString ''first''], [JNumber 2, JUndefined, JString ''second'']]"
proof -
  have a: "innerColumns Order_handle \<noteq> []" by (simp add: Order_handle_def)
  have b: "nonempty_rows (Array [order1, order2])" by simp
  have c: "pool no_pool = None" by (simp add: no_pool_def)
  have d: "map (row_values (innerColumns Order_handle)) (flat (Array [order1, order2])) =
     [[JNumber 1, JNumber 250, JString ''first''], [JNumber 2, JUndefined, JString ''second'']]"
    by code_simp
  have e: "rows (innerTable Order_handle) = []" by (simp add: Order_handle_def Order_table_def)
  show ?thesis
    using insert_without_pool_keeps_rows [OF a b c] a b c d e by simp
qed

end
